theory Spec2Isabelle
  imports Main
begin

section \<open>Strings as Python handles them\<close>

text \<open>
  The stub generator script \<^verbatim>\<open>_generate_stub.py\<close> works on path and module names as
  strings. The string primitives it calls are modelled here on \<open>string\<close>.
\<close>

text \<open>\<^verbatim>\<open>s.split(c)\<close> for a separator of one character: the fields between the
  separators, in order; the result is never empty.\<close>

fun split_on :: "char \<Rightarrow> string \<Rightarrow> string list" where
  "split_on c [] = [[]]"
| "split_on c (x # xs) =
     (if x = c then [] # split_on c xs
      else (case split_on c xs of
              [] \<Rightarrow> [[x]]
            | w # ws \<Rightarrow> (x # w) # ws))"

text \<open>\<^verbatim>\<open>c.join(ws)\<close>.\<close>

fun join_with :: "char \<Rightarrow> string list \<Rightarrow> string" where
  "join_with c [] = []"
| "join_with c [w] = w"
| "join_with c (w # ws) = w @ c # join_with c ws"

text \<open>\<^verbatim>\<open>s.endswith(suf)\<close>.\<close>

definition endswith :: "string \<Rightarrow> string \<Rightarrow> bool" where
  "endswith s suf = (length suf \<le> length s \<and> drop (length s - length suf) s = suf)"

text \<open>\<^verbatim>\<open>s.replace(a, b)\<close> for single characters.\<close>

definition replace_char :: "char \<Rightarrow> char \<Rightarrow> string \<Rightarrow> string" where
  "replace_char a b s = map (\<lambda>c. if c = a then b else c) s"

text \<open>Line 27, \<^verbatim>\<open>file = file.split('.')[0]\<close>: the first field of the split.
  The split of a string is never empty, so the index \<open>0\<close> always exists.\<close>

definition module_basename :: "string \<Rightarrow> string" where
  "module_basename file = (case split_on CHR ''.'' file of [] \<Rightarrow> [] | w # ws \<Rightarrow> w)"

section \<open>Paths\<close>

text \<open>
  A \<^verbatim>\<open>pathlib.Path\<close> on a POSIX system: whether it is absolute, and its segments.
  The script receives its paths already parsed by \<^verbatim>\<open>Path(...)\<close>.
\<close>

datatype path = Path (is_absolute: bool) (parts: "string list")

text \<open>\<^verbatim>\<open>str(p)\<close>.\<close>

definition str_path :: "path \<Rightarrow> string" where
  "str_path p =
     (if is_absolute p then CHR ''/'' # join_with CHR ''/'' (parts p)
      else if parts p = [] then ''.''
      else join_with CHR ''/'' (parts p))"

text \<open>\<^verbatim>\<open>p.absolute()\<close>: a relative path is put below the working directory, and
  nothing is normalised.\<close>

definition absolute :: "string list \<Rightarrow> path \<Rightarrow> path" where
  "absolute cwd p = (if is_absolute p then p else Path True (cwd @ parts p))"

text \<open>\<^verbatim>\<open>p.parent\<close>: the path without its last segment; a path with no segment is its
  own parent.\<close>

definition parent :: "path \<Rightarrow> path" where
  "parent p = Path (is_absolute p) (butlast (parts p))"

text \<open>\<^verbatim>\<open>p.name\<close>: the last segment, or the empty string.\<close>

definition path_name :: "path \<Rightarrow> string" where
  "path_name p = (if parts p = [] then [] else last (parts p))"

text \<open>\<^verbatim>\<open>s.rfind('.')\<close>, with \<open>None\<close> for Python's \<open>-1\<close>.\<close>

definition rfind_dot :: "string \<Rightarrow> nat option" where
  "rfind_dot s =
     (let after = takeWhile (\<lambda>c. c \<noteq> CHR ''.'') (rev s)
      in if length after = length s then None else Some (length s - length after - 1))"

text \<open>\<^verbatim>\<open>p.stem\<close>: the name without its last suffix. A dot that starts or ends the name
  opens no suffix (\<^verbatim>\<open>if 0 < i < len(name) - 1\<close>).\<close>

definition path_stem :: "path \<Rightarrow> string" where
  "path_stem p =
     (let name = path_name p
      in case rfind_dot name of
           None \<Rightarrow> name
         | Some i \<Rightarrow> if 0 < i \<and> i + 1 < length name then take i name else name)"

text \<open>\<^verbatim>\<open>os.path.dirname(p)\<close>: everything up to the last slash, without trailing
  slashes unless it consists of slashes only.\<close>

definition dirname :: "string \<Rightarrow> string" where
  "dirname p =
     (let head = rev (dropWhile (\<lambda>c. c \<noteq> CHR ''/'') (rev p))
      in if head \<noteq> [] \<and> \<not> list_all (\<lambda>c. c = CHR ''/'') head
         then rev (dropWhile (\<lambda>c. c = CHR ''/'') (rev head))
         else head)"

text \<open>\<^verbatim>\<open>os.path.join(a, b)\<close>.\<close>

definition path_join :: "string \<Rightarrow> string \<Rightarrow> string" where
  "path_join a b =
     (if b \<noteq> [] \<and> hd b = CHR ''/'' then b
      else if a = [] \<or> endswith a ''/'' then a @ b
      else a @ ''/'' @ b)"

text \<open>\<^verbatim>\<open>os.path.splitext(p)[0]\<close>: the extension starts at the last dot of the last
  component, provided some character other than a dot precedes it in that component.\<close>

definition splitext_root :: "string \<Rightarrow> string" where
  "splitext_root p =
     (let r = rev p;
          ext = takeWhile (\<lambda>c. c \<noteq> CHR ''.'' \<and> c \<noteq> CHR ''/'') r
      in case drop (length ext) r of
           [] \<Rightarrow> p
         | c # pre \<Rightarrow>
             if c = CHR ''/'' then p
             else if list_ex (\<lambda>ch. ch \<noteq> CHR ''.'') (takeWhile (\<lambda>ch. ch \<noteq> CHR ''/'') pre)
             then rev pre
             else p)"

text \<open>
  \<^verbatim>\<open>os.path.relpath(os.path.join(root, file), module_path)\<close> where \<open>root\<close> was reached
  from \<open>module_path\<close> by descending through the directories \<open>rel\<close>: both paths are
  normalised and split into their non-empty segments, the segments of \<open>module_path\<close> are
  the common prefix, and what is left of the path is joined again. Nothing left gives
  \<^verbatim>\<open>'.'\<close>.
\<close>

definition relpath_below :: "string list \<Rightarrow> string \<Rightarrow> string" where
  "relpath_below rel file =
     (let rel_list = filter (\<lambda>x. x \<noteq> []) (rel @ [file])
      in if rel_list = [] then ''.'' else join_with CHR ''/'' rel_list)"

section \<open>Interpreter state, modules and imports\<close>

datatype py_error =
    TypeError
  | ValueError
  | IndexError
  | ImportError
  | Raised string  \<comment> \<open>an exception raised by imported code or by an external service\<close>

record py_module =
  mod_name :: string  \<comment> \<open>\<^verbatim>\<open>__name__\<close>\<close>
  mod_file :: "string option"  \<comment> \<open>\<^verbatim>\<open>__file__\<close>, \<open>None\<close> for a namespace package\<close>

record py_state =
  sys_path :: "string list"
  cwd :: "string list"  \<comment> \<open>the segments of \<^verbatim>\<open>os.getcwd()\<close>\<close>

text \<open>
  Finding and loading a module by its absolute name is the interpreter's work. It is a
  parameter of the model: a function of the search path and the absolute name, which gives
  the module or the exception raised. Loading is taken not to change \<open>sys.path\<close> or the
  working directory.
\<close>

type_synonym importer = "string list \<Rightarrow> string \<Rightarrow> py_error + py_module"

text \<open>\<^verbatim>\<open>importlib._bootstrap._resolve_name\<close>: \<^verbatim>\<open>package.rsplit('.', level - 1)\<close>
  keeps as base the package without its last \<open>level - 1\<close> dotted components.\<close>

definition resolve_name :: "string \<Rightarrow> string \<Rightarrow> nat \<Rightarrow> py_error + string" where
  "resolve_name name package level =
     (let comps = split_on CHR ''.'' package
      in if length comps < level then Inl ImportError
         else (let base = join_with CHR ''.'' (take (length comps - (level - 1)) comps)
               in Inr (if name \<noteq> [] then base @ ''.'' @ name else base)))"

text \<open>\<^verbatim>\<open>importlib.import_module(name, package)\<close>: the leading dots of a relative name
  are counted and the rest is resolved against the package.\<close>

definition import_module :: "importer \<Rightarrow> string list \<Rightarrow> string \<Rightarrow> string option \<Rightarrow> py_error + py_module" where
  "import_module imp sp name package =
     (let level = length (takeWhile (\<lambda>c. c = CHR ''.'') name)
      in if level = 0 then (if name = [] then Inl ValueError else imp sp name)
         else (case package of
                 None \<Rightarrow> Inl TypeError
               | Some pkg \<Rightarrow>
                   if pkg = [] then Inl TypeError
                   else (case resolve_name (drop level name) pkg level of
                           Inl e \<Rightarrow> Inl e
                         | Inr absname \<Rightarrow> imp sp absname)))"

section \<open>The directory walk\<close>

text \<open>A directory as \<^verbatim>\<open>os.scandir\<close> lists it: the names of its files, and its
  subdirectories by name, each in listing order. Symbolic links to directories, which
  the walk lists but does not follow, are left out.\<close>

datatype fs_dir = Dir (dir_files: "string list") (dir_subdirs: "(string \<times> fs_dir) list")

text \<open>The file system is a parameter: the directory found at a path, if there is one.\<close>

type_synonym filesystem = "string \<Rightarrow> fs_dir option"

text \<open>
  \<^verbatim>\<open>os.walk(top, topdown=True)\<close> yields a directory, lets the caller edit the list of
  subdirectory names, and then descends into the names that are left. \<open>edit\<close> is the
  caller's edit, given the names and the files of the directory; the script only takes
  names out, so the walk goes on into the subdirectories whose names are left, in their
  order. Each yield carries, beside its path \<open>root\<close>, the names descended from \<open>top\<close> to
  reach it.
\<close>

fun walk_tree :: "(string list \<Rightarrow> string list \<Rightarrow> string list) \<Rightarrow> string \<Rightarrow> string list \<Rightarrow> fs_dir
    \<Rightarrow> (string \<times> string list \<times> string list) list" where
  "walk_tree edit root rel (Dir files subs) =
     (root, rel, files) #
     concat (map (\<lambda>nd. walk_tree edit (path_join root (fst nd)) (rel @ [fst nd]) (snd nd))
                 (filter (\<lambda>nd. fst nd \<in> set (edit (map fst subs) files)) subs))"

text \<open>A top that cannot be listed yields nothing (\<^verbatim>\<open>onerror=None\<close>).\<close>

definition os_walk :: "filesystem \<Rightarrow> (string list \<Rightarrow> string list \<Rightarrow> string list) \<Rightarrow> string
    \<Rightarrow> (string \<times> string list \<times> string list) list" where
  "os_walk fs edit start = (case fs start of None \<Rightarrow> [] | Some d \<Rightarrow> walk_tree edit start [] d)"

text \<open>A \<^verbatim>\<open>for\<close> loop whose body may raise: the first exception ends it.\<close>

fun for_each :: "('s \<Rightarrow> 'a \<Rightarrow> 'e + 's) \<Rightarrow> 'a list \<Rightarrow> 's \<Rightarrow> 'e + 's" where
  "for_each body [] s = Inr s"
| "for_each body (x # xs) s =
     (case body s x of Inl e \<Rightarrow> Inl e | Inr s' \<Rightarrow> for_each body xs s')"

section \<open>Batch resolution: \<^verbatim>\<open>list_modules\<close>\<close>

text \<open>Line 25, the comprehension that drops \<^verbatim>\<open>build\<close> and \<^verbatim>\<open>__pycache__\<close>.\<close>

definition prune_dirs :: "string list \<Rightarrow> string list" where
  "prune_dirs dirs = filter (\<lambda>d. d \<notin> set [''build'', ''__pycache__'']) dirs"

text \<open>Line 25 stands in the body of \<^verbatim>\<open>for file in files\<close> (line 24): \<open>dirs\<close> is
  rewritten once for each file of the directory.\<close>

definition dirs_after_files :: "string list \<Rightarrow> string list \<Rightarrow> string list" where
  "dirs_after_files dirs files = foldl (\<lambda>ds file. prune_dirs ds) dirs files"

text \<open>Line 9.\<close>

definition package_name_of :: "path option \<Rightarrow> string" where
  "package_name_of module_path =
     (case module_path of
        Some mp \<Rightarrow> ''.'' @ join_with CHR ''.'' (split_on CHR ''/'' (str_path mp))
      | None \<Rightarrow> ''.'')"

text \<open>Lines 27 to 30: the relative dotted name of the artifact \<open>file\<close> found in the
  directory reached through \<open>rel\<close>.\<close>

definition module_name_of :: "string \<Rightarrow> string list \<Rightarrow> string \<Rightarrow> string" where
  "module_name_of package_name rel file =
     (let file' = module_basename file;
          module_name = replace_char CHR ''/'' CHR ''.'' (splitext_root (relpath_below rel file'))
      in if package_name \<noteq> ''.'' then package_name @ ''.'' @ module_name
         else ''.'' @ module_name)"

type_synonym module_spec = "py_module \<times> string \<times> string"

text \<open>Lines 26 to 34, the body of the loop over the files of one directory.\<close>

definition file_step :: "importer \<Rightarrow> string list \<Rightarrow> string \<Rightarrow> string \<Rightarrow> string \<Rightarrow> string list
    \<Rightarrow> module_spec list \<Rightarrow> string \<Rightarrow> py_error + module_spec list" where
  "file_step imp sp stem package_name root rel modules file =
     (if endswith file ''.so'' then
        (let module_name = module_name_of package_name rel file
         in case import_module imp sp module_name (Some stem) of
              Inl e \<Rightarrow> Inl e
            | Inr m \<Rightarrow> Inr (modules @ [(m, stem @ module_name, root)]))
      else Inr modules)"

text \<open>Lines 23 and 24 around it: the loop over the yields of the walk.\<close>

definition dir_step :: "importer \<Rightarrow> string list \<Rightarrow> string \<Rightarrow> string
    \<Rightarrow> module_spec list \<Rightarrow> string \<times> string list \<times> string list \<Rightarrow> py_error + module_spec list" where
  "dir_step imp sp stem package_name modules y =
     (case y of (root, rel, files) \<Rightarrow>
        for_each (file_step imp sp stem package_name root rel) files modules)"

text \<open>The function returns its result, or the exception it raised, and the state it
  leaves behind.\<close>

definition list_modules :: "importer \<Rightarrow> filesystem \<Rightarrow> path option \<Rightarrow> path \<Rightarrow> py_state
    \<Rightarrow> (py_error + module_spec list) \<times> py_state" where
  "list_modules imp fs module_path package_path st =
     (let package_name = package_name_of module_path;
          package_path = absolute (cwd st) package_path;
          st1 = st\<lparr>sys_path := sys_path st @ [str_path (parent package_path)]\<rparr>;
          stem = path_stem package_path
      in case import_module imp (sys_path st1) package_name (Some stem) of
           Inl e \<Rightarrow> (Inl e, st1)
         | Inr pkg \<Rightarrow>
             (case mod_file pkg of
                None \<Rightarrow> (Inl TypeError, st1)
              | Some f \<Rightarrow>
                  (for_each (dir_step imp (sys_path st1) stem package_name)
                     (os_walk fs dirs_after_files (dirname f)) [], st1)))"

section \<open>Single resolution: \<^verbatim>\<open>get_module\<close>\<close>

text \<open>\<^verbatim>\<open>str(package_name)\<close> at line 38; without \<^verbatim>\<open>-p\<close> the argument is
  \<^verbatim>\<open>None\<close>.\<close>

definition str_opt_path :: "path option \<Rightarrow> string" where
  "str_opt_path p = (case p of None \<Rightarrow> ''None'' | Some q \<Rightarrow> str_path q)"

definition get_module :: "importer \<Rightarrow> path option \<Rightarrow> path \<Rightarrow> py_state
    \<Rightarrow> (py_error + py_module \<times> string \<times> path) \<times> py_state" where
  "get_module imp package_name package_path st =
     (let package_name = str_opt_path package_name;
          package_path = absolute (cwd st) package_path;
          path = str_path package_path
      in case sys_path st of
           [] \<Rightarrow> (Inl IndexError, st)
         | p0 # ps \<Rightarrow>
             (let st1 = (if p0 \<noteq> path then st\<lparr>sys_path := path # sys_path st\<rparr> else st)
              in case import_module imp (sys_path st1) package_name None of
                   Inl e \<Rightarrow> (Inl e, st1)
                 | Inr m \<Rightarrow> (Inr (m, mod_name m, package_path), st1)))"

section \<open>The stub emitter: \<^verbatim>\<open>stub\<close>\<close>

text \<open>The request bundle \<^verbatim>\<open>CLIArgs\<close> of the stub generation service. An option that
  holds a pattern is \<open>None\<close> when it is off.\<close>

record cli_args =
  cli_module_name :: string  \<comment> \<open>the field \<^verbatim>\<open>module_name\<close>\<close>
  output_dir :: string
  stub_extension :: string
  root_suffix :: "string option"
  ignore_all_errors :: bool
  ignore_invalid_identifiers :: "string option"
  ignore_invalid_expressions :: "string option"
  ignore_unresolved_names :: "string option"
  exit_code :: bool
  numpy_array_wrap_with_annotated :: bool
  numpy_array_use_type_var :: bool
  numpy_array_remove_parameters :: bool
  enum_class_locations :: "string list"
  print_safe_value_reprs :: "string option"
  print_invalid_expressions_as_is :: bool
  dry_run :: bool

text \<open>Lines 54 to 71.\<close>

definition stub_args :: "string \<Rightarrow> string \<Rightarrow> cli_args" where
  "stub_args name dir =
     \<lparr> cli_module_name = name,
       output_dir = dir,
       stub_extension = ''pyi'',
       root_suffix = None,
       ignore_all_errors = False,
       ignore_invalid_identifiers = None,
       ignore_invalid_expressions = None,
       ignore_unresolved_names = None,
       exit_code = False,
       numpy_array_wrap_with_annotated = False,
       numpy_array_use_type_var = False,
       numpy_array_remove_parameters = False,
       enum_class_locations = [],
       print_safe_value_reprs = None,
       print_invalid_expressions_as_is = False,
       dry_run = False \<rparr>"

text \<open>
  The stub generation service (parser, printer, writer and \<^verbatim>\<open>run\<close>) is external: a
  parameter that gives, for a request, the exception it raises, if any. \<open>stub\<close> hands it
  the request built from its two arguments; the log keeps every request handed over.
\<close>

type_synonym service = "cli_args \<Rightarrow> py_error option"

definition stub :: "service \<Rightarrow> string \<Rightarrow> string \<Rightarrow> cli_args list \<Rightarrow> py_error option \<times> cli_args list" where
  "stub svc name dir log = (let args = stub_args name dir in (svc args, log @ [args]))"

section \<open>The script\<close>

text \<open>The parsed command line: \<^verbatim>\<open>-p\<close>, \<^verbatim>\<open>--root\<close>, \<^verbatim>\<open>--single\<close> and
  \<^verbatim>\<open>--eval\<close>.\<close>

record arguments =
  arg_p :: "path option"
  arg_root :: "path option"
  arg_single :: bool
  arg_eval :: "string option"

text \<open>Lines 111 to 113: one emission for each resolved module, until one raises.\<close>

fun stub_all :: "service \<Rightarrow> string \<Rightarrow> module_spec list \<Rightarrow> cli_args list \<Rightarrow> py_error option \<times> cli_args list" where
  "stub_all svc dir [] log = (None, log)"
| "stub_all svc dir ((m, name, mdir) # rest) log =
     (case stub svc name dir log of
        (Some e, log') \<Rightarrow> (Some e, log')
      | (None, log') \<Rightarrow> stub_all svc dir rest log')"

text \<open>
  Line 107, \<^verbatim>\<open>exec(eval_str)\<close>, stands at module level: the code runs in the globals of
  the script, so it can rebind \<^verbatim>\<open>p\<close>, \<^verbatim>\<open>root\<close> and \<^verbatim>\<open>single\<close> before lines 109 to
  116 read them, as well as change the search path and the working directory. These
  are the variables of the script that the code can reach.
\<close>

record script_globals =
  g_p :: "path option"
  g_root :: path
  g_single :: bool
  g_state :: py_state

text \<open>
  The code itself is arbitrary: a parameter that gives, for the code and the globals it
  finds, the exception it raises, if any, and the globals it leaves. It is taken to leave
  \<^verbatim>\<open>p\<close> and \<^verbatim>\<open>root\<close> paths and the functions of the script as they are.
\<close>

type_synonym executor = "string \<Rightarrow> script_globals \<Rightarrow> py_error option \<times> script_globals"

text \<open>Lines 99 to 107: the globals when line 109 is reached. \<^verbatim>\<open>Path(None)\<close> for a
  missing \<^verbatim>\<open>--root\<close> raises \<^verbatim>\<open>TypeError\<close>; line 104 puts the absolute root at the
  front of the search path; line 106 runs the code only when \<^verbatim>\<open>--eval\<close> was given.\<close>

definition script_setup :: "executor \<Rightarrow> arguments \<Rightarrow> py_state \<Rightarrow> py_error option \<times> script_globals" where
  "script_setup exec_py args st =
     (case arg_root args of
        None \<Rightarrow>
          (Some TypeError,
           \<lparr>g_p = arg_p args, g_root = Path False [], g_single = arg_single args, g_state = st\<rparr>)
      | Some root \<Rightarrow>
          (let g = \<lparr>g_p = arg_p args, g_root = root, g_single = arg_single args,
                    g_state = st\<lparr>sys_path := str_path (absolute (cwd st) root) # sys_path st\<rparr>\<rparr>
           in case arg_eval args of
                None \<Rightarrow> (None, g)
              | Some code \<Rightarrow> exec_py code g))"

text \<open>
  Lines 99 to 116. The result is the exception that ended the run, if any, the requests
  handed to the service, and the final interpreter state.
\<close>

definition main :: "importer \<Rightarrow> filesystem \<Rightarrow> service \<Rightarrow> executor
    \<Rightarrow> arguments \<Rightarrow> py_state \<Rightarrow> py_error option \<times> cli_args list \<times> py_state" where
  "main imp fs svc exec_py args st =
     (case script_setup exec_py args st of
        (Some e, g) \<Rightarrow> (Some e, [], g_state g)
      | (None, g) \<Rightarrow>
          if \<not> g_single g then
            (case list_modules imp fs (g_p g) (g_root g) (g_state g) of
               (Inl e, st3) \<Rightarrow> (Some e, [], st3)
             | (Inr modules, st3) \<Rightarrow>
                 (case stub_all svc (str_path (parent (g_root g))) modules [] of
                    (r, log) \<Rightarrow> (r, log, st3)))
          else
            (case get_module imp (g_p g) (g_root g) (g_state g) of
               (Inl e, st3) \<Rightarrow> (Some e, [], st3)
             | (Inr (m, name, mpath), st3) \<Rightarrow>
                 (case stub svc name (str_path mpath) [] of
                    (r, log) \<Rightarrow> (r, log, st3))))"

section \<open>The artifacts a walk reaches\<close>

text \<open>
  The compiled artifacts that the loops of \<open>list_modules\<close> come to when they walk from
  \<open>start\<close>, in the order of the walk: each file whose name ends in \<^verbatim>\<open>.so\<close>, with the
  path of its directory and the names that lead there.
\<close>

definition artifacts :: "filesystem \<Rightarrow> string \<Rightarrow> (string \<times> string list \<times> string) list" where
  "artifacts fs start =
     concat (map (\<lambda>y. case y of (root, rel, files) \<Rightarrow>
                    map (\<lambda>file. (root, rel, file)) (filter (\<lambda>file. endswith file ''.so'') files))
                 (os_walk fs dirs_after_files start))"

text \<open>Lines 27 to 34 for one artifact: what the body of the loop does once line 26 has
  let the file through.\<close>

definition resolve_artifact :: "importer \<Rightarrow> string list \<Rightarrow> string \<Rightarrow> string
    \<Rightarrow> module_spec list \<Rightarrow> string \<times> string list \<times> string \<Rightarrow> py_error + module_spec list" where
  "resolve_artifact imp sp stem package_name modules a =
     (case a of (root, rel, file) \<Rightarrow>
        (case import_module imp sp (module_name_of package_name rel file) (Some stem) of
           Inl e \<Rightarrow> Inl e
         | Inr m \<Rightarrow> Inr (modules @ [(m, stem @ module_name_of package_name rel file, root)])))"

section \<open>Example environments\<close>

text \<open>An interpreter that loads exactly the modules of a table, which gives each
  module's \<^verbatim>\<open>__file__\<close>, and a file system given by a table of directories.\<close>

definition imp_from :: "(string \<times> string option) list \<Rightarrow> importer" where
  "imp_from table sp name =
     (case map_of table name of
        Some f \<Rightarrow> Inr \<lparr>mod_name = name, mod_file = f\<rparr>
      | None \<Rightarrow> Inl ImportError)"

definition fs_from :: "(string \<times> fs_dir) list \<Rightarrow> filesystem" where
  "fs_from table = map_of table"

text \<open>The package of the end-to-end scenario: \<^verbatim>\<open>/pkg/mypkg\<close> with
  \<^verbatim>\<open>native/core.cpython-311.so\<close> and \<^verbatim>\<open>native/sub/ext.cpython-311.so\<close>; an interpreter
  that loads all of it, and one that cannot load the second artifact.\<close>

definition mypkg_tree :: fs_dir where
  "mypkg_tree =
     Dir [''__init__.py'']
       [(''native'', Dir [''core.cpython-311.so'']
           [(''sub'', Dir [''ext.cpython-311.so''] [])])]"

definition mypkg_fs :: filesystem where
  "mypkg_fs = fs_from [(''/pkg/mypkg'', mypkg_tree)]"

definition mypkg_imp :: importer where
  "mypkg_imp = imp_from
     [(''mypkg'', Some ''/pkg/mypkg/__init__.py''),
      (''mypkg.native.core'', Some ''/pkg/mypkg/native/core.cpython-311.so''),
      (''mypkg.native.sub.ext'', Some ''/pkg/mypkg/native/sub/ext.cpython-311.so'')]"

definition broken_imp :: importer where
  "broken_imp = imp_from
     [(''mypkg'', Some ''/pkg/mypkg/__init__.py''),
      (''mypkg.native.core'', Some ''/pkg/mypkg/native/core.cpython-311.so'')]"

definition start_state :: py_state where
  "start_state = \<lparr>sys_path = [''/usr/lib/python3''], cwd = [''home'']\<rparr>"

definition mypkg_path :: path where
  "mypkg_path = Path True [''pkg'', ''mypkg'']"

text \<open>A package whose directory \<^verbatim>\<open>native\<close> holds no file, only the directory
  \<^verbatim>\<open>build\<close>, with an artifact in it.\<close>

definition nested_build_fs :: filesystem where
  "nested_build_fs = fs_from
     [(''/pkg/mypkg'',
       Dir [''__init__.py'']
         [(''native'', Dir [] [(''build'', Dir [''ext.so''] [])])])]"

definition nested_build_imp :: importer where
  "nested_build_imp = imp_from
     [(''mypkg'', Some ''/pkg/mypkg/__init__.py''),
      (''mypkg.native.build.ext'', Some ''/pkg/mypkg/native/build/ext.so'')]"

text \<open>A package that holds a subpackage of its own name beside the directory
  \<^verbatim>\<open>native\<close>.\<close>

definition nested_fs :: filesystem where
  "nested_fs = fs_from
     [(''/pkg/mypkg'',
       Dir [''__init__.py'']
         [(''native'', Dir [''core.so''] []),
          (''mypkg'', Dir [''__init__.py'', ''inner.so''] [])]),
      (''/pkg/mypkg/mypkg'', Dir [''__init__.py'', ''inner.so''] [])]"

definition nested_imp :: importer where
  "nested_imp = imp_from
     [(''mypkg'', Some ''/pkg/mypkg/__init__.py''),
      (''mypkg.mypkg'', Some ''/pkg/mypkg/mypkg/__init__.py''),
      (''mypkg.native.core'', Some ''/pkg/mypkg/native/core.so''),
      (''mypkg.mypkg.inner'', Some ''/pkg/mypkg/mypkg/inner.so'')]"

text \<open>The package of the scenario once more, as the subpackage \<^verbatim>\<open>mypkg.mypkg\<close> of a
  package \<^verbatim>\<open>mypkg\<close>.\<close>

definition wrapped_fs :: filesystem where
  "wrapped_fs = fs_from
     [(''/pkg/mypkg'', Dir [''__init__.py''] [(''mypkg'', mypkg_tree)]),
      (''/pkg/mypkg/mypkg'', mypkg_tree)]"

definition wrapped_imp :: importer where
  "wrapped_imp = imp_from
     [(''mypkg'', Some ''/pkg/mypkg/__init__.py''),
      (''mypkg.mypkg'', Some ''/pkg/mypkg/mypkg/__init__.py''),
      (''mypkg.mypkg.native.core'', Some ''/pkg/mypkg/mypkg/native/core.cpython-311.so''),
      (''mypkg.mypkg.native.sub.ext'', Some ''/pkg/mypkg/mypkg/native/sub/ext.cpython-311.so'')]"

text \<open>A run of the script from the directory \<^verbatim>\<open>/pkg\<close>, with a service that never
  fails: in batch mode with \<^verbatim>\<open>--root mypkg\<close>, in single mode with \<^verbatim>\<open>--root .\<close> and
  \<^verbatim>\<open>-p mypkg.native.core\<close>.\<close>

definition pkg_state :: py_state where
  "pkg_state = \<lparr>sys_path = [''/usr/lib/python3''], cwd = [''pkg'']\<rparr>"

definition quiet_service :: service where
  "quiet_service args = None"

definition batch_arguments :: arguments where
  "batch_arguments =
     \<lparr>arg_p = None, arg_root = Some (Path False [''mypkg'']), arg_single = False, arg_eval = None\<rparr>"

definition single_arguments :: arguments where
  "single_arguments =
     \<lparr>arg_p = Some (Path False [''mypkg.native.core'']), arg_root = Some (Path False []),
      arg_single = True, arg_eval = None\<rparr>"

text \<open>The same batch run with \<^verbatim>\<open>--eval 'root = root.absolute()'\<close>, and what that code
  does to the globals.\<close>

definition rebind_root_absolute :: executor where
  "rebind_root_absolute code g =
     (None, g\<lparr>g_root := absolute (cwd (g_state g)) (g_root g)\<rparr>)"

definition eval_arguments :: arguments where
  "eval_arguments =
     \<lparr>arg_p = None, arg_root = Some (Path False [''mypkg'']), arg_single = False,
      arg_eval = Some ''root = root.absolute()''\<rparr>"

section \<open>Properties of the string primitives\<close>

lemma split_on_not_Nil: "split_on c s \<noteq> []"
  by (induction s) (auto split: list.splits)


lemma join_split_on: "join_with c (split_on c s) = s"
proof (induction s)
  case Nil
  then show ?case by simp
next
  case (Cons x xs)
  obtain w ws where sp: "split_on c xs = w # ws"
    using split_on_not_Nil [of c xs] by (cases "split_on c xs") auto
  show ?case
  proof (cases "x = c")
    case True
    with Cons sp show ?thesis by simp
  next
    case False
    with Cons sp show ?thesis by (cases ws) auto
  qed
qed



section \<open>The state a call leaves behind\<close>

lemma list_modules_state:
  "snd (list_modules imp fs module_path package_path st) =
     st\<lparr>sys_path := sys_path st @ [str_path (parent (absolute (cwd st) package_path))]\<rparr>"
  by (simp add: list_modules_def Let_def split: sum.splits option.splits)

lemma get_module_state:
  "snd (get_module imp package_name package_path st) =
     (case sys_path st of
        [] \<Rightarrow> st
      | p0 # ps \<Rightarrow>
          if p0 \<noteq> str_path (absolute (cwd st) package_path)
          then st\<lparr>sys_path := str_path (absolute (cwd st) package_path) # sys_path st\<rparr>
          else st)"
  by (simp add: get_module_def Let_def split: sum.splits option.splits list.splits)

section \<open>The loops of batch resolution\<close>

lemma dirs_after_files_eq:
  "dirs_after_files dirs files = (if files = [] then dirs else prune_dirs dirs)"
proof -
  have idem: "prune_dirs (prune_dirs ds) = prune_dirs ds" for ds
    by (simp add: prune_dirs_def)
  have "foldl (\<lambda>ds file. prune_dirs ds) (prune_dirs ds) (xs :: string list) = prune_dirs ds" for ds xs
    by (induction xs) (simp_all add: idem)
  then show ?thesis
    by (cases files) (simp_all add: dirs_after_files_def)
qed

lemma for_each_append:
  "for_each body (xs @ ys) s =
     (case for_each body xs s of Inl e \<Rightarrow> Inl e | Inr s' \<Rightarrow> for_each body ys s')"
  by (induction xs arbitrary: s) (auto split: sum.splits)

lemma files_loop_artifacts:
  "for_each (file_step imp sp stem pn root rel) files acc =
   for_each (resolve_artifact imp sp stem pn)
     (map (\<lambda>file. (root, rel, file)) (filter (\<lambda>file. endswith file ''.so'') files)) acc"
proof (induction files arbitrary: acc)
  case Nil
  show ?case by simp
next
  case (Cons f files)
  show ?case
  proof (cases "endswith f ''.so''")
    case True
    then have "file_step imp sp stem pn root rel acc f =
        resolve_artifact imp sp stem pn acc (root, rel, f)"
      by (simp add: file_step_def resolve_artifact_def Let_def)
    with True Cons show ?thesis by (simp split: sum.splits)
  next
    case False
    then have "file_step imp sp stem pn root rel acc f = Inr acc"
      by (simp add: file_step_def)
    with False Cons show ?thesis by simp
  qed
qed

lemma walk_loop_artifacts:
  "for_each (dir_step imp sp stem pn) ys acc =
   for_each (resolve_artifact imp sp stem pn)
     (concat (map (\<lambda>y. case y of (root, rel, files) \<Rightarrow>
                map (\<lambda>file. (root, rel, file)) (filter (\<lambda>file. endswith file ''.so'') files)) ys)) acc"
proof (induction ys arbitrary: acc)
  case Nil
  show ?case by simp
next
  case (Cons y ys)
  obtain root rel files where y: "y = (root, rel, files)" by (cases y) auto
  show ?case
    by (simp add: y dir_step_def [of imp sp stem pn _ "(root, rel, files)"]
        for_each_append files_loop_artifacts Cons split: sum.splits)
qed

lemma list_modules_result:
  assumes "import_module imp (sys_path st @ [str_path (parent (absolute (cwd st) pp))])
             (package_name_of mp) (Some (path_stem (absolute (cwd st) pp))) = Inr pkg"
    and "mod_file pkg = Some f"
  shows "fst (list_modules imp fs mp pp st) =
     for_each (resolve_artifact imp (sys_path st @ [str_path (parent (absolute (cwd st) pp))])
                 (path_stem (absolute (cwd st) pp)) (package_name_of mp))
       (artifacts fs (dirname f)) []"
  using assms by (simp add: list_modules_def Let_def walk_loop_artifacts artifacts_def)

lemma resolve_artifact_triple:
  "resolve_artifact imp sp stem pn acc (root, rel, f) =
     (case import_module imp sp (module_name_of pn rel f) (Some stem) of
        Inl e \<Rightarrow> Inl e
      | Inr m \<Rightarrow> Inr (acc @ [(m, stem @ module_name_of pn rel f, root)]))"
  by (simp add: resolve_artifact_def)

lemma resolve_all_failure:
  assumes "a \<in> set as"
    and "import_module imp sp (module_name_of pn (fst (snd a)) (snd (snd a))) (Some stem) = Inl e"
  shows "\<exists>a' e'. a' \<in> set as
      \<and> import_module imp sp (module_name_of pn (fst (snd a')) (snd (snd a'))) (Some stem) = Inl e'
      \<and> for_each (resolve_artifact imp sp stem pn) as acc = Inl e'"
  using assms
proof (induction as arbitrary: acc)
  case Nil
  then show ?case by simp
next
  case (Cons b bs)
  obtain root rel f where b: "b = (root, rel, f)" by (cases b) auto
  show ?case
  proof (cases "import_module imp sp (module_name_of pn rel f) (Some stem)")
    case (Inl e0)
    then have "resolve_artifact imp sp stem pn acc b = Inl e0"
      by (simp add: b resolve_artifact_def)
    then have "for_each (resolve_artifact imp sp stem pn) (b # bs) acc = Inl e0"
      by simp
    with Inl b show ?thesis by (intro exI [of _ b] exI [of _ e0]) simp
  next
    case (Inr m)
    with Cons.prems b have "a \<in> set bs" by auto
    from Cons.IH [OF this Cons.prems(2)] obtain a' e' where
      "a' \<in> set bs"
      "import_module imp sp (module_name_of pn (fst (snd a')) (snd (snd a'))) (Some stem) = Inl e'"
      "for_each (resolve_artifact imp sp stem pn) bs (acc @ [(m, stem @ module_name_of pn rel f, root)]) = Inl e'"
      by blast
    moreover have "resolve_artifact imp sp stem pn acc b =
        Inr (acc @ [(m, stem @ module_name_of pn rel f, root)])"
      using Inr by (simp add: b resolve_artifact_def)
    ultimately show ?thesis
      by (intro exI [of _ a'] exI [of _ e']) simp
  qed
qed

text \<open>
  Claim C5. When the package itself imports and the import of any artifact that the walk
  reaches fails, batch resolution raises: its result is the import failure of an artifact
  of the walk, and no list of the modules resolved before it is returned.
\<close>

theorem list_modules_import_failure_aborts:
  assumes "sp = sys_path st @ [str_path (parent (absolute (cwd st) package_path))]"
    and "stem = path_stem (absolute (cwd st) package_path)"
    and "import_module imp sp (package_name_of module_path) (Some stem) = Inr pkg"
    and "mod_file pkg = Some f"
    and "(root, rel, file) \<in> set (artifacts fs (dirname f))"
    and "import_module imp sp (module_name_of (package_name_of module_path) rel file) (Some stem) = Inl e"
  shows "\<exists>root' rel' file' e'.
      (root', rel', file') \<in> set (artifacts fs (dirname f))
      \<and> import_module imp sp (module_name_of (package_name_of module_path) rel' file') (Some stem) = Inl e'
      \<and> fst (list_modules imp fs module_path package_path st) = Inl e'"
proof -
  from resolve_all_failure [OF assms(5), of imp sp "package_name_of module_path" stem e "[]"] assms(6)
  obtain a' e' where a': "a' \<in> set (artifacts fs (dirname f))"
    "import_module imp sp (module_name_of (package_name_of module_path) (fst (snd a')) (snd (snd a'))) (Some stem) = Inl e'"
    "for_each (resolve_artifact imp sp stem (package_name_of module_path)) (artifacts fs (dirname f)) [] = Inl e'"
    by auto
  obtain r l fl where "a' = (r, l, fl)" by (cases a') auto
  with a' list_modules_result [of imp st package_path module_path pkg f fs] assms(1-4)
  show ?thesis by (intro exI [of _ r] exI [of _ l] exI [of _ fl] exI [of _ e']) simp
qed

lemma for_each_invariant:
  assumes "\<And>s x s'. I s \<Longrightarrow> body s x = Inr s' \<Longrightarrow> I s'"
    and "I s"
    and "for_each body xs s = Inr s'"
  shows "I s'"
  using assms(2,3)
proof (induction xs arbitrary: s)
  case Nil
  then show ?case by simp
next
  case (Cons x xs)
  show ?case
  proof (cases "body s x")
    case (Inl e)
    with Cons.prems show ?thesis by simp
  next
    case (Inr s1)
    with Cons.prems have "for_each body xs s1 = Inr s'" by simp
    moreover from assms(1) Cons.prems(1) Inr have "I s1" by blast
    ultimately show ?thesis by (rule Cons.IH [rotated])
  qed
qed

lemma list_modules_Inr:
  assumes "fst (list_modules imp fs mp pp st) = Inr res"
  shows "\<exists>pkg f.
      import_module imp (sys_path st @ [str_path (parent (absolute (cwd st) pp))])
        (package_name_of mp) (Some (path_stem (absolute (cwd st) pp))) = Inr pkg
      \<and> mod_file pkg = Some f
      \<and> for_each (resolve_artifact imp (sys_path st @ [str_path (parent (absolute (cwd st) pp))])
            (path_stem (absolute (cwd st) pp)) (package_name_of mp))
          (artifacts fs (dirname f)) [] = Inr res"
  using assms
  by (auto simp: list_modules_def Let_def walk_loop_artifacts artifacts_def
      split: sum.splits option.splits)

lemma resolve_all_anchor:
  assumes "for_each (resolve_artifact imp sp stem pn) as [] = Inr res"
    and "(m, qn, root) \<in> set res"
  shows "\<exists>mn. qn = stem @ mn \<and> import_module imp sp mn (Some stem) = Inr m"
proof -
  let ?I = "\<lambda>s. \<forall>x \<in> set s. \<exists>mn. fst (snd x) = stem @ mn
      \<and> import_module imp sp mn (Some stem) = Inr (fst x)"
  have step: "?I s'" if "?I s" and "resolve_artifact imp sp stem pn s a = Inr s'" for s a s'
    using that by (cases a) (auto simp: resolve_artifact_def split: sum.splits)
  have "?I res"
    by (rule for_each_invariant [where I = ?I, OF step _ assms(1)]) simp_all
  with assms(2) show ?thesis by fastforce
qed

lemma path_stem_no_dot:
  "CHR ''.'' \<notin> set (path_name p) \<Longrightarrow> path_stem p = path_name p"
proof -
  assume a: "CHR ''.'' \<notin> set (path_name p)"
  then have "takeWhile (\<lambda>c. c \<noteq> CHR ''.'') (rev (path_name p)) = rev (path_name p)"
    by auto
  then have "length (takeWhile (\<lambda>c. c \<noteq> CHR ''.'') (rev (path_name p))) = length (path_name p)"
    by (metis length_rev)
  then have "rfind_dot (path_name p) = None"
    unfolding rfind_dot_def Let_def by (simp only: simp_thms if_True)
  then show ?thesis by (simp add: path_stem_def)
qed

lemma walk_tree_root_irrelevant:
  "map snd (walk_tree edit r1 rel d) = map snd (walk_tree edit r2 rel d)"
proof (induction edit r1 rel d arbitrary: r2 rule: walk_tree.induct)
  case (1 edit root rel files subs)
  have "map (\<lambda>nd. map snd (walk_tree edit (path_join root (fst nd)) (rel @ [fst nd]) (snd nd)))
          (filter (\<lambda>nd. fst nd \<in> set (edit (map fst subs) files)) subs)
      = map (\<lambda>nd. map snd (walk_tree edit (path_join r2 (fst nd)) (rel @ [fst nd]) (snd nd)))
          (filter (\<lambda>nd. fst nd \<in> set (edit (map fst subs) files)) subs)"
    by (rule map_cong [OF refl]) (rule "1.IH")
  then have "concat (map (\<lambda>nd. map snd (walk_tree edit (path_join root (fst nd)) (rel @ [fst nd]) (snd nd)))
          (filter (\<lambda>nd. fst nd \<in> set (edit (map fst subs) files)) subs))
      = concat (map (\<lambda>nd. map snd (walk_tree edit (path_join r2 (fst nd)) (rel @ [fst nd]) (snd nd)))
          (filter (\<lambda>nd. fst nd \<in> set (edit (map fst subs) files)) subs))"
    by (rule arg_cong [where f = concat])
  then show ?case
    by (simp add: map_concat comp_def)
qed

lemma artifacts_same_contents:
  assumes "fs1 t1 = fs2 t2"
  shows "map snd (artifacts fs1 t1) = map snd (artifacts fs2 t2)"
proof -
  have shape: "map snd (artifacts fs t) =
      concat (map (\<lambda>y. case y of (rel, files) \<Rightarrow>
                 map (\<lambda>f. (rel, f)) (filter (\<lambda>f. endswith f ''.so'') files))
               (map snd (os_walk fs dirs_after_files t)))" for fs t
    by (simp add: artifacts_def map_concat comp_def case_prod_beta)
  have "map snd (os_walk fs1 dirs_after_files t1) = map snd (os_walk fs2 dirs_after_files t2)"
    using assms walk_tree_root_irrelevant [of dirs_after_files t1 "[]" _ t2]
    by (simp add: os_walk_def split: option.splits)
  then show ?thesis by (simp only: shape)
qed

lemma resolve_all_names:
  assumes "for_each (resolve_artifact imp sp stem pn) as acc = Inr res"
  shows "map (fst \<circ> snd) res =
     map (fst \<circ> snd) acc @ map (\<lambda>a. stem @ module_name_of pn (fst a) (snd a)) (map snd as)"
  using assms
proof (induction as arbitrary: acc)
  case Nil
  then show ?case by simp
next
  case (Cons a as)
  obtain root rel f where a: "a = (root, rel, f)" by (cases a) auto
  show ?case
  proof (cases "import_module imp sp (module_name_of pn rel f) (Some stem)")
    case (Inl e)
    with Cons.prems show ?thesis by (simp add: a resolve_artifact_triple)
  next
    case (Inr m)
    with Cons.prems have "for_each (resolve_artifact imp sp stem pn) as
        (acc @ [(m, stem @ module_name_of pn rel f, root)]) = Inr res"
      by (simp add: a resolve_artifact_triple)
    from Cons.IH [OF this] show ?thesis by (simp add: a)
  qed
qed

lemma module_name_of_shift:
  assumes "pn \<noteq> ''.''"
  shows "module_name_of pn rel f = pn @ module_name_of ''.'' rel f"
  using assms by (simp add: module_name_of_def Let_def)

section \<open>Evaluating the examples\<close>

lemmas path_defs = Let_def str_path_def absolute_def parent_def path_name_def path_stem_def rfind_dot_def
  dirname_def path_join_def splitext_root_def relpath_below_def endswith_def replace_char_def
  module_basename_def

lemmas import_defs = import_module_def resolve_name_def imp_from_def

lemmas walk_defs = artifacts_def os_walk_def fs_from_def dirs_after_files_eq prune_dirs_def
  module_name_of_def package_name_of_def

lemma list_modules_eval:
  assumes "str_path (parent (absolute (cwd st) pp)) = dir"
    and "path_stem (absolute (cwd st) pp) = stem"
    and "import_module imp (sys_path st @ [dir]) (package_name_of mp) (Some stem) = Inr pkg"
    and "mod_file pkg = Some f"
    and "artifacts fs (dirname f) = as"
    and "for_each (resolve_artifact imp (sys_path st @ [dir]) stem (package_name_of mp)) as [] = r"
  shows "list_modules imp fs mp pp st = (r, st\<lparr>sys_path := sys_path st @ [dir]\<rparr>)"
proof -
  have "fst (list_modules imp fs mp pp st) = r"
    using list_modules_result [of imp st pp mp pkg f fs] assms by simp
  moreover have "snd (list_modules imp fs mp pp st) = st\<lparr>sys_path := sys_path st @ [dir]\<rparr>"
    by (simp add: list_modules_state assms(1))
  ultimately show ?thesis by (simp add: prod_eq_iff)
qed

lemmas name_defs = Let_def module_name_of_def package_name_of_def module_basename_def
  relpath_below_def splitext_root_def replace_char_def str_path_def

lemmas tree_defs = Let_def artifacts_def os_walk_def fs_from_def dirs_after_files_eq prune_dirs_def
  path_join_def endswith_def dirname_def

lemma mypkg_run:
  assumes "str_path (parent (absolute (cwd st) pp)) = ''/pkg''"
    and "path_stem (absolute (cwd st) pp) = ''mypkg''"
  shows "list_modules mypkg_imp mypkg_fs None pp st =
     (Inr [(\<lparr>mod_name = ''mypkg.native.core'',
              mod_file = Some ''/pkg/mypkg/native/core.cpython-311.so''\<rparr>,
            ''mypkg.native.core'', ''/pkg/mypkg/native''),
           (\<lparr>mod_name = ''mypkg.native.sub.ext'',
              mod_file = Some ''/pkg/mypkg/native/sub/ext.cpython-311.so''\<rparr>,
            ''mypkg.native.sub.ext'', ''/pkg/mypkg/native/sub'')],
      st\<lparr>sys_path := sys_path st @ [''/pkg'']\<rparr>)"
proof (rule list_modules_eval [OF assms])
  show "import_module mypkg_imp (sys_path st @ [''/pkg'']) (package_name_of None) (Some ''mypkg'')
      = Inr \<lparr>mod_name = ''mypkg'', mod_file = Some ''/pkg/mypkg/__init__.py''\<rparr>"
    by (simp add: mypkg_imp_def import_defs package_name_of_def)
  show "mod_file \<lparr>mod_name = ''mypkg'', mod_file = Some ''/pkg/mypkg/__init__.py''\<rparr>
      = Some ''/pkg/mypkg/__init__.py''"
    by simp
  show "artifacts mypkg_fs (dirname ''/pkg/mypkg/__init__.py'') =
      [(''/pkg/mypkg/native'', [''native''], ''core.cpython-311.so''),
       (''/pkg/mypkg/native/sub'', [''native'', ''sub''], ''ext.cpython-311.so'')]"
    by (simp add: mypkg_fs_def mypkg_tree_def tree_defs)
  show "for_each (resolve_artifact mypkg_imp (sys_path st @ [''/pkg'']) ''mypkg'' (package_name_of None))
      [(''/pkg/mypkg/native'', [''native''], ''core.cpython-311.so''),
       (''/pkg/mypkg/native/sub'', [''native'', ''sub''], ''ext.cpython-311.so'')] []
    = Inr [(\<lparr>mod_name = ''mypkg.native.core'',
              mod_file = Some ''/pkg/mypkg/native/core.cpython-311.so''\<rparr>,
            ''mypkg.native.core'', ''/pkg/mypkg/native''),
           (\<lparr>mod_name = ''mypkg.native.sub.ext'',
              mod_file = Some ''/pkg/mypkg/native/sub/ext.cpython-311.so''\<rparr>,
            ''mypkg.native.sub.ext'', ''/pkg/mypkg/native/sub'')]"
    by (simp add: resolve_artifact_triple mypkg_imp_def import_defs name_defs)
qed

lemma wrapped_run:
  "list_modules wrapped_imp wrapped_fs (Some (Path False [''mypkg''])) mypkg_path start_state =
     (Inr [(\<lparr>mod_name = ''mypkg.mypkg.native.core'',
              mod_file = Some ''/pkg/mypkg/mypkg/native/core.cpython-311.so''\<rparr>,
            ''mypkg.mypkg.native.core'', ''/pkg/mypkg/mypkg/native''),
           (\<lparr>mod_name = ''mypkg.mypkg.native.sub.ext'',
              mod_file = Some ''/pkg/mypkg/mypkg/native/sub/ext.cpython-311.so''\<rparr>,
            ''mypkg.mypkg.native.sub.ext'', ''/pkg/mypkg/mypkg/native/sub'')],
      start_state\<lparr>sys_path := sys_path start_state @ [''/pkg'']\<rparr>)"
proof (rule list_modules_eval)
  show "str_path (parent (absolute (cwd start_state) mypkg_path)) = ''/pkg''"
    by (simp add: mypkg_path_def absolute_def parent_def str_path_def)
  show "path_stem (absolute (cwd start_state) mypkg_path) = ''mypkg''"
    by (simp add: mypkg_path_def absolute_def path_stem_def path_name_def rfind_dot_def)
  show "import_module wrapped_imp (sys_path start_state @ [''/pkg''])
        (package_name_of (Some (Path False [''mypkg'']))) (Some ''mypkg'')
      = Inr \<lparr>mod_name = ''mypkg.mypkg'', mod_file = Some ''/pkg/mypkg/mypkg/__init__.py''\<rparr>"
    by (simp add: wrapped_imp_def import_defs package_name_of_def str_path_def)
  show "mod_file \<lparr>mod_name = ''mypkg.mypkg'', mod_file = Some ''/pkg/mypkg/mypkg/__init__.py''\<rparr>
      = Some ''/pkg/mypkg/mypkg/__init__.py''"
    by simp
  show "artifacts wrapped_fs (dirname ''/pkg/mypkg/mypkg/__init__.py'') =
      [(''/pkg/mypkg/mypkg/native'', [''native''], ''core.cpython-311.so''),
       (''/pkg/mypkg/mypkg/native/sub'', [''native'', ''sub''], ''ext.cpython-311.so'')]"
    by (simp add: wrapped_fs_def mypkg_tree_def tree_defs)
  show "for_each (resolve_artifact wrapped_imp (sys_path start_state @ [''/pkg'']) ''mypkg''
        (package_name_of (Some (Path False [''mypkg'']))))
      [(''/pkg/mypkg/mypkg/native'', [''native''], ''core.cpython-311.so''),
       (''/pkg/mypkg/mypkg/native/sub'', [''native'', ''sub''], ''ext.cpython-311.so'')] []
    = Inr [(\<lparr>mod_name = ''mypkg.mypkg.native.core'',
              mod_file = Some ''/pkg/mypkg/mypkg/native/core.cpython-311.so''\<rparr>,
            ''mypkg.mypkg.native.core'', ''/pkg/mypkg/mypkg/native''),
           (\<lparr>mod_name = ''mypkg.mypkg.native.sub.ext'',
              mod_file = Some ''/pkg/mypkg/mypkg/native/sub/ext.cpython-311.so''\<rparr>,
            ''mypkg.mypkg.native.sub.ext'', ''/pkg/mypkg/mypkg/native/sub'')]"
    by (simp add: resolve_artifact_triple wrapped_imp_def import_defs name_defs)
qed

lemma mypkg_path_facts:
  "str_path (parent (absolute (cwd start_state) mypkg_path)) = ''/pkg''"
  "path_stem (absolute (cwd start_state) mypkg_path) = ''mypkg''"
  "path_name (absolute (cwd start_state) mypkg_path) = ''mypkg''"
  by (simp_all add: mypkg_path_def absolute_def parent_def str_path_def path_stem_def
      path_name_def rfind_dot_def)

lemma nested_run_self:
  "list_modules nested_imp nested_fs None mypkg_path start_state =
     (Inr [(\<lparr>mod_name = ''mypkg.native.core'', mod_file = Some ''/pkg/mypkg/native/core.so''\<rparr>,
            ''mypkg.native.core'', ''/pkg/mypkg/native''),
           (\<lparr>mod_name = ''mypkg.mypkg.inner'', mod_file = Some ''/pkg/mypkg/mypkg/inner.so''\<rparr>,
            ''mypkg.mypkg.inner'', ''/pkg/mypkg/mypkg'')],
      start_state\<lparr>sys_path := sys_path start_state @ [''/pkg'']\<rparr>)"
proof (rule list_modules_eval)
  show "str_path (parent (absolute (cwd start_state) mypkg_path)) = ''/pkg''"
    by (simp add: mypkg_path_def absolute_def parent_def str_path_def)
  show "path_stem (absolute (cwd start_state) mypkg_path) = ''mypkg''"
    by (simp add: mypkg_path_def absolute_def path_stem_def path_name_def rfind_dot_def)
  show "import_module nested_imp (sys_path start_state @ [''/pkg'']) (package_name_of None) (Some ''mypkg'')
      = Inr \<lparr>mod_name = ''mypkg'', mod_file = Some ''/pkg/mypkg/__init__.py''\<rparr>"
    by (simp add: nested_imp_def import_defs package_name_of_def)
  show "mod_file \<lparr>mod_name = ''mypkg'', mod_file = Some ''/pkg/mypkg/__init__.py''\<rparr>
      = Some ''/pkg/mypkg/__init__.py''"
    by simp
  show "artifacts nested_fs (dirname ''/pkg/mypkg/__init__.py'') =
      [(''/pkg/mypkg/native'', [''native''], ''core.so''),
       (''/pkg/mypkg/mypkg'', [''mypkg''], ''inner.so'')]"
    by (simp add: nested_fs_def tree_defs)
  show "for_each (resolve_artifact nested_imp (sys_path start_state @ [''/pkg'']) ''mypkg''
        (package_name_of None))
      [(''/pkg/mypkg/native'', [''native''], ''core.so''),
       (''/pkg/mypkg/mypkg'', [''mypkg''], ''inner.so'')] []
    = Inr [(\<lparr>mod_name = ''mypkg.native.core'', mod_file = Some ''/pkg/mypkg/native/core.so''\<rparr>,
            ''mypkg.native.core'', ''/pkg/mypkg/native''),
           (\<lparr>mod_name = ''mypkg.mypkg.inner'', mod_file = Some ''/pkg/mypkg/mypkg/inner.so''\<rparr>,
            ''mypkg.mypkg.inner'', ''/pkg/mypkg/mypkg'')]"
    by (simp add: resolve_artifact_triple nested_imp_def import_defs name_defs)
qed

lemma nested_run_explicit:
  "list_modules nested_imp nested_fs (Some (Path False [''mypkg''])) mypkg_path start_state =
     (Inr [(\<lparr>mod_name = ''mypkg.mypkg.inner'', mod_file = Some ''/pkg/mypkg/mypkg/inner.so''\<rparr>,
            ''mypkg.mypkg.inner'', ''/pkg/mypkg/mypkg'')],
      start_state\<lparr>sys_path := sys_path start_state @ [''/pkg'']\<rparr>)"
proof (rule list_modules_eval)
  show "str_path (parent (absolute (cwd start_state) mypkg_path)) = ''/pkg''"
    by (simp add: mypkg_path_def absolute_def parent_def str_path_def)
  show "path_stem (absolute (cwd start_state) mypkg_path) = ''mypkg''"
    by (simp add: mypkg_path_def absolute_def path_stem_def path_name_def rfind_dot_def)
  show "import_module nested_imp (sys_path start_state @ [''/pkg''])
        (package_name_of (Some (Path False [''mypkg'']))) (Some ''mypkg'')
      = Inr \<lparr>mod_name = ''mypkg.mypkg'', mod_file = Some ''/pkg/mypkg/mypkg/__init__.py''\<rparr>"
    by (simp add: nested_imp_def import_defs package_name_of_def str_path_def)
  show "mod_file \<lparr>mod_name = ''mypkg.mypkg'', mod_file = Some ''/pkg/mypkg/mypkg/__init__.py''\<rparr>
      = Some ''/pkg/mypkg/mypkg/__init__.py''"
    by simp
  show "artifacts nested_fs (dirname ''/pkg/mypkg/mypkg/__init__.py'') =
      [(''/pkg/mypkg/mypkg'', [], ''inner.so'')]"
    by (simp add: nested_fs_def tree_defs)
  show "for_each (resolve_artifact nested_imp (sys_path start_state @ [''/pkg'']) ''mypkg''
        (package_name_of (Some (Path False [''mypkg'']))))
      [(''/pkg/mypkg/mypkg'', [], ''inner.so'')] []
    = Inr [(\<lparr>mod_name = ''mypkg.mypkg.inner'', mod_file = Some ''/pkg/mypkg/mypkg/inner.so''\<rparr>,
            ''mypkg.mypkg.inner'', ''/pkg/mypkg/mypkg'')]"
    by (simp add: resolve_artifact_triple nested_imp_def import_defs name_defs)
qed

section \<open>Batch resolution on the examples\<close>

theorem list_modules_import_failure_aborts_witness:
  "\<exists>e. fst (list_modules broken_imp mypkg_fs None mypkg_path start_state) = Inl e"
proof -
  let ?sp = "sys_path start_state @ [str_path (parent (absolute (cwd start_state) mypkg_path))]"
  let ?stem = "path_stem (absolute (cwd start_state) mypkg_path)"
  have pkg: "import_module broken_imp ?sp (package_name_of None) (Some ?stem)
      = Inr \<lparr>mod_name = ''mypkg'', mod_file = Some ''/pkg/mypkg/__init__.py''\<rparr>"
    by (simp add: broken_imp_def mypkg_path_def start_state_def path_defs import_defs walk_defs)
  have art: "(''/pkg/mypkg/native/sub'', [''native'', ''sub''], ''ext.cpython-311.so'')
      \<in> set (artifacts mypkg_fs (dirname ''/pkg/mypkg/__init__.py''))"
    by (simp add: mypkg_fs_def mypkg_tree_def path_defs walk_defs)
  have fails: "import_module broken_imp ?sp
      (module_name_of (package_name_of None) [''native'', ''sub''] ''ext.cpython-311.so'') (Some ?stem)
      = Inl ImportError"
    by (simp add: broken_imp_def mypkg_path_def start_state_def path_defs import_defs walk_defs)
  have mfile: "mod_file \<lparr>mod_name = ''mypkg'', mod_file = Some ''/pkg/mypkg/__init__.py''\<rparr>
      = Some ''/pkg/mypkg/__init__.py''"
    by simp
  from list_modules_import_failure_aborts [OF refl refl pkg mfile art fails]
  show ?thesis by blast
qed

text \<open>
  Claim C2. The package \<^verbatim>\<open>/pkg/mypkg\<close> holds, among its files, exactly the compiled
  artifacts \<^verbatim>\<open>native/core.cpython-311.so\<close> and \<^verbatim>\<open>native/sub/ext.cpython-311.so\<close>, and
  the interpreter loads the package and both modules. Then batch resolution without a
  module path returns the names \<^verbatim>\<open>mypkg.native.core\<close> and \<^verbatim>\<open>mypkg.native.sub.ext\<close>,
  each with the module loaded and the directory that holds its artifact.
\<close>

theorem batch_resolution_scenario:
  assumes "absolute (cwd st) package_path = Path True [''pkg'', ''mypkg'']"
    and "imp (sys_path st @ [''/pkg'']) ''mypkg'' = Inr pkg"
    and "mod_file pkg = Some ''/pkg/mypkg/__init__.py''"
    and "fs ''/pkg/mypkg'' = Some (Dir top_files [(''native'', Dir native_files [(''sub'', Dir sub_files [])])])"
    and "filter (\<lambda>file. endswith file ''.so'') top_files = []"
    and "filter (\<lambda>file. endswith file ''.so'') native_files = [''core.cpython-311.so'']"
    and "filter (\<lambda>file. endswith file ''.so'') sub_files = [''ext.cpython-311.so'']"
    and "imp (sys_path st @ [''/pkg'']) ''mypkg.native.core'' = Inr core"
    and "imp (sys_path st @ [''/pkg'']) ''mypkg.native.sub.ext'' = Inr ext"
  shows "fst (list_modules imp fs None package_path st) =
     Inr [(core, ''mypkg.native.core'', ''/pkg/mypkg/native''),
          (ext, ''mypkg.native.sub.ext'', ''/pkg/mypkg/native/sub'')]"
proof -
  have sp: "sys_path st @ [str_path (parent (absolute (cwd st) package_path))] = sys_path st @ [''/pkg'']"
    by (simp add: assms(1) parent_def str_path_def)
  have stem: "path_stem (absolute (cwd st) package_path) = ''mypkg''"
    by (simp add: assms(1) path_stem_def path_name_def rfind_dot_def)
  have pkg: "import_module imp (sys_path st @ [''/pkg'']) (package_name_of None) (Some ''mypkg'') = Inr pkg"
    by (simp add: assms(2) package_name_of_def import_module_def resolve_name_def)
  have walk: "os_walk fs dirs_after_files ''/pkg/mypkg'' =
      [(''/pkg/mypkg'', [], top_files),
       (''/pkg/mypkg/native'', [''native''], native_files),
       (''/pkg/mypkg/native/sub'', [''native'', ''sub''], sub_files)]"
    by (simp add: os_walk_def assms(4) dirs_after_files_eq prune_dirs_def path_join_def endswith_def)
  have arts: "artifacts fs (dirname ''/pkg/mypkg/__init__.py'') =
      [(''/pkg/mypkg/native'', [''native''], ''core.cpython-311.so''),
       (''/pkg/mypkg/native/sub'', [''native'', ''sub''], ''ext.cpython-311.so'')]"
    by (simp add: artifacts_def walk assms(5-7) dirname_def)
  have n1: "module_name_of (package_name_of None) [''native''] ''core.cpython-311.so'' = ''.native.core''"
    by (simp add: module_name_of_def package_name_of_def module_basename_def relpath_below_def
        splitext_root_def replace_char_def)
  have n2: "module_name_of (package_name_of None) [''native'', ''sub''] ''ext.cpython-311.so''
      = ''.native.sub.ext''"
    by (simp add: module_name_of_def package_name_of_def module_basename_def relpath_below_def
        splitext_root_def replace_char_def)
  have i1: "import_module imp (sys_path st @ [''/pkg'']) ''.native.core'' (Some ''mypkg'') = Inr core"
    by (simp add: assms(8) import_module_def resolve_name_def)
  have i2: "import_module imp (sys_path st @ [''/pkg'']) ''.native.sub.ext'' (Some ''mypkg'') = Inr ext"
    by (simp add: assms(9) import_module_def resolve_name_def)
  have "fst (list_modules imp fs None package_path st) =
      for_each (resolve_artifact imp (sys_path st @ [''/pkg'']) ''mypkg'' (package_name_of None))
        (artifacts fs (dirname ''/pkg/mypkg/__init__.py'')) []"
    using list_modules_result [of imp st package_path None pkg "''/pkg/mypkg/__init__.py''" fs]
      pkg assms(3) by (simp add: sp stem)
  also have "\<dots> = Inr [(core, ''mypkg.native.core'', ''/pkg/mypkg/native''),
          (ext, ''mypkg.native.sub.ext'', ''/pkg/mypkg/native/sub'')]"
    by (simp add: arts resolve_artifact_triple n1 n2 i1 i2)
  finally show ?thesis .
qed

theorem batch_resolution_scenario_witness:
  "fst (list_modules mypkg_imp mypkg_fs None mypkg_path start_state) =
     Inr [(\<lparr>mod_name = ''mypkg.native.core'',
             mod_file = Some ''/pkg/mypkg/native/core.cpython-311.so''\<rparr>,
           ''mypkg.native.core'', ''/pkg/mypkg/native''),
          (\<lparr>mod_name = ''mypkg.native.sub.ext'',
             mod_file = Some ''/pkg/mypkg/native/sub/ext.cpython-311.so''\<rparr>,
           ''mypkg.native.sub.ext'', ''/pkg/mypkg/native/sub'')]"
  by (rule batch_resolution_scenario [where top_files = "[''__init__.py'']" and native_files = "[''core.cpython-311.so'']"
        and sub_files = "[''ext.cpython-311.so'']"
        and pkg = "\<lparr>mod_name = ''mypkg'', mod_file = Some ''/pkg/mypkg/__init__.py''\<rparr>"])
    (simp_all add: mypkg_imp_def mypkg_fs_def mypkg_tree_def mypkg_path_def start_state_def
      imp_from_def fs_from_def absolute_def endswith_def)

text \<open>
  Claim C1 fails on the code. Line 25 prunes the directory names inside the loop over
  the files, so a directory without files prunes nothing (\<open>dirs_after_files_eq\<close>): the
  walk descends from \<^verbatim>\<open>native\<close> into \<^verbatim>\<open>native/build\<close>, and the artifact below the
  directory \<^verbatim>\<open>build\<close> is in the result.
\<close>

theorem build_below_empty_directory_not_pruned:
  "fst (list_modules nested_build_imp nested_build_fs None mypkg_path start_state) =
     Inr [(\<lparr>mod_name = ''mypkg.native.build.ext'',
             mod_file = Some ''/pkg/mypkg/native/build/ext.so''\<rparr>,
           ''mypkg.native.build.ext'', ''/pkg/mypkg/native/build'')]"
proof -
  have pkg: "import_module nested_build_imp
      (sys_path start_state @ [str_path (parent (absolute (cwd start_state) mypkg_path))])
      (package_name_of None) (Some (path_stem (absolute (cwd start_state) mypkg_path)))
      = Inr \<lparr>mod_name = ''mypkg'', mod_file = Some ''/pkg/mypkg/__init__.py''\<rparr>"
    by (simp add: nested_build_imp_def mypkg_path_def start_state_def path_defs import_defs walk_defs)
  have arts: "artifacts nested_build_fs (dirname ''/pkg/mypkg/__init__.py'') =
      [(''/pkg/mypkg/native/build'', [''native'', ''build''], ''ext.so'')]"
    by (simp add: nested_build_fs_def path_defs walk_defs)
  have imp: "import_module nested_build_imp
      (sys_path start_state @ [str_path (parent (absolute (cwd start_state) mypkg_path))])
      (module_name_of (package_name_of None) [''native'', ''build''] ''ext.so'')
      (Some (path_stem (absolute (cwd start_state) mypkg_path)))
      = Inr \<lparr>mod_name = ''mypkg.native.build.ext'',
             mod_file = Some ''/pkg/mypkg/native/build/ext.so''\<rparr>"
    by (simp add: nested_build_imp_def mypkg_path_def start_state_def path_defs import_defs
        module_name_of_def package_name_of_def)
  have name: "path_stem (absolute (cwd start_state) mypkg_path)
      @ module_name_of (package_name_of None) [''native'', ''build''] ''ext.so''
      = ''mypkg.native.build.ext''"
    by (simp add: mypkg_path_def start_state_def path_defs module_name_of_def package_name_of_def)
  have "fst (list_modules nested_build_imp nested_build_fs None mypkg_path start_state) =
      for_each (resolve_artifact nested_build_imp
          (sys_path start_state @ [str_path (parent (absolute (cwd start_state) mypkg_path))])
          (path_stem (absolute (cwd start_state) mypkg_path)) (package_name_of None))
        (artifacts nested_build_fs (dirname ''/pkg/mypkg/__init__.py'')) []"
    by (rule list_modules_result [OF pkg]) simp
  then show ?thesis
    by (simp add: arts resolve_artifact_triple imp name)
qed

section \<open>The search path\<close>

text \<open>
  Claim C4, as the code has it. Every call of batch resolution, whether it returns or
  raises, leaves the search path it found with the parent directory of the absolute
  \<open>package_path\<close> appended as its last entry (line 11 calls \<^verbatim>\<open>sys.path.append\<close>);
  nothing takes the entry out again.
\<close>

theorem list_modules_appends_parent:
  "sys_path (snd (list_modules imp fs module_path package_path st)) =
     sys_path st @ [str_path (parent (absolute (cwd st) package_path))]"
  by (simp add: list_modules_state)

text \<open>
  Claim C4 as stated fails: with \<^verbatim>\<open>/usr/lib/python3\<close> on the search path, batch
  resolution for \<^verbatim>\<open>/pkg/mypkg\<close> returns and leaves \<^verbatim>\<open>/pkg\<close> behind that entry, not
  in front of it.
\<close>

theorem list_modules_parent_not_front:
  "sys_path (snd (list_modules mypkg_imp mypkg_fs None mypkg_path start_state))
     = [''/usr/lib/python3'', ''/pkg'']
   \<and> sys_path (snd (list_modules mypkg_imp mypkg_fs None mypkg_path start_state))
     \<noteq> ''/pkg'' # sys_path start_state"
  unfolding mypkg_run [OF mypkg_path_facts(1,2)] by (simp add: start_state_def)

text \<open>
  Claim C6, as the code has it. A second call of single resolution with the same
  \<open>package_path\<close> leaves the state as the first call left it: it inserts nothing. The
  first call inserts the path at the front exactly when the search path is not empty and
  does not start with the path already (line 41). So two calls make at most one
  insertion, and none when the path is the first entry beforehand.
\<close>

theorem get_module_twice:
  "snd (get_module imp package_name package_path
          (snd (get_module imp package_name package_path st)))
     = snd (get_module imp package_name package_path st)
   \<and> sys_path (snd (get_module imp package_name package_path st)) =
       (if sys_path st = [] \<or> hd (sys_path st) = str_path (absolute (cwd st) package_path)
        then sys_path st
        else str_path (absolute (cwd st) package_path) # sys_path st)"
  by (simp add: get_module_state split: list.splits)

theorem get_module_twice_witness:
  "sys_path (snd (get_module (imp_from [(''mypkg'', None)]) (Some (Path False [''mypkg'']))
       (Path True [''pkg''])
       (snd (get_module (imp_from [(''mypkg'', None)]) (Some (Path False [''mypkg'']))
          (Path True [''pkg''])
          \<lparr>sys_path = [''/usr/lib/python3''], cwd = [''home'']\<rparr>))))
     = [''/pkg'', ''/usr/lib/python3'']"
  using get_module_twice [of "imp_from [(''mypkg'', None)]" "Some (Path False [''mypkg''])"
      "Path True [''pkg'']" "\<lparr>sys_path = [''/usr/lib/python3''], cwd = [''home'']\<rparr>"]
  by (simp add: absolute_def str_path_def)

text \<open>
  Claim C6 as stated fails: when the path is the first entry of the search path already,
  as it is after line 104 of the script, two calls in succession insert it not once but
  never.
\<close>

theorem get_module_twice_no_insertion:
  "sys_path (snd (get_module (imp_from [(''mypkg'', None)]) (Some (Path False [''mypkg'']))
       (Path True [''pkg''])
       (snd (get_module (imp_from [(''mypkg'', None)]) (Some (Path False [''mypkg'']))
          (Path True [''pkg''])
          \<lparr>sys_path = [''/pkg'', ''/usr/lib/python3''], cwd = [''home'']\<rparr>))))
     = [''/pkg'', ''/usr/lib/python3'']
   \<and> sys_path (snd (get_module (imp_from [(''mypkg'', None)]) (Some (Path False [''mypkg'']))
       (Path True [''pkg''])
       (snd (get_module (imp_from [(''mypkg'', None)]) (Some (Path False [''mypkg'']))
          (Path True [''pkg''])
          \<lparr>sys_path = [''/pkg'', ''/usr/lib/python3''], cwd = [''home'']\<rparr>))))
     \<noteq> ''/pkg'' # [''/pkg'', ''/usr/lib/python3'']"
  by (simp add: get_module_state absolute_def str_path_def)

section \<open>The request to the stub generation service\<close>

text \<open>
  Claim C9. Whatever module name and output directory the stub emitter is called with,
  the request it hands to the service has the four leniency options off (ignore all
  errors, invalid identifiers, invalid expressions, unresolved names), no dry run, the
  stub extension \<^verbatim>\<open>pyi\<close> and no custom exit code.
\<close>

theorem stub_request_strict:
  "ignore_all_errors (stub_args name dir) = False
   \<and> ignore_invalid_identifiers (stub_args name dir) = None
   \<and> ignore_invalid_expressions (stub_args name dir) = None
   \<and> ignore_unresolved_names (stub_args name dir) = None
   \<and> dry_run (stub_args name dir) = False
   \<and> stub_extension (stub_args name dir) = ''pyi''
   \<and> exit_code (stub_args name dir) = False
   \<and> stub svc name dir log = (svc (stub_args name dir), log @ [stub_args name dir])"
  by (simp add: stub_args_def stub_def Let_def)

section \<open>The package name and the module path\<close>

text \<open>
  Claim C8, as the code has it. The package name of batch resolution is the stem of the
  absolute \<open>package_path\<close> (\<^verbatim>\<open>package_path.stem\<close>, lines 21, 32 and 33): its last
  segment without the last suffix, which is the last segment itself when that holds no
  dot. When resolution returns, the package was imported as the module path resolved
  against the stem, and every returned name is the stem followed by a relative name
  whose import, resolved against the stem, gave the returned module.
\<close>

theorem package_name_is_stem:
  assumes "fst (list_modules imp fs module_path package_path st) = Inr res"
    and "(m, qn, root) \<in> set res"
    and "sp = sys_path st @ [str_path (parent (absolute (cwd st) package_path))]"
    and "stem = path_stem (absolute (cwd st) package_path)"
  shows "(\<exists>pkg. import_module imp sp (package_name_of module_path) (Some stem) = Inr pkg)
    \<and> (\<exists>mn. qn = stem @ mn \<and> import_module imp sp mn (Some stem) = Inr m)
    \<and> (CHR ''.'' \<notin> set (path_name (absolute (cwd st) package_path))
          \<longrightarrow> stem = path_name (absolute (cwd st) package_path))"
proof -
  from list_modules_Inr [OF assms(1)] obtain pkg f where
    pkg: "import_module imp sp (package_name_of module_path) (Some stem) = Inr pkg"
    and run: "for_each (resolve_artifact imp sp stem (package_name_of module_path))
        (artifacts fs (dirname f)) [] = Inr res"
    unfolding assms(3,4) by blast
  from resolve_all_anchor [OF run assms(2)] pkg path_stem_no_dot [of "absolute (cwd st) package_path"]
  show ?thesis by (auto simp: assms(4))
qed

theorem package_name_is_stem_witness:
  "(\<exists>mn. ''mypkg.native.core'' = ''mypkg'' @ mn
       \<and> import_module mypkg_imp (sys_path start_state @ [''/pkg'']) mn (Some ''mypkg'')
         = Inr \<lparr>mod_name = ''mypkg.native.core'',
                 mod_file = Some ''/pkg/mypkg/native/core.cpython-311.so''\<rparr>)
   \<and> ''mypkg'' = path_name (absolute (cwd start_state) mypkg_path)"
proof -
  have run: "fst (list_modules mypkg_imp mypkg_fs None mypkg_path start_state) =
      Inr [(\<lparr>mod_name = ''mypkg.native.core'',
             mod_file = Some ''/pkg/mypkg/native/core.cpython-311.so''\<rparr>,
           ''mypkg.native.core'', ''/pkg/mypkg/native''),
          (\<lparr>mod_name = ''mypkg.native.sub.ext'',
             mod_file = Some ''/pkg/mypkg/native/sub/ext.cpython-311.so''\<rparr>,
           ''mypkg.native.sub.ext'', ''/pkg/mypkg/native/sub'')]"
    by (simp add: mypkg_run mypkg_path_facts)
  have nodot: "CHR ''.'' \<notin> set (path_name (absolute (cwd start_state) mypkg_path))"
    by (simp add: mypkg_path_facts)
  from package_name_is_stem [OF run, of "\<lparr>mod_name = ''mypkg.native.core'',
             mod_file = Some ''/pkg/mypkg/native/core.cpython-311.so''\<rparr>"
      "''mypkg.native.core''" "''/pkg/mypkg/native''"
      "sys_path start_state @ [''/pkg'']" "''mypkg''"] nodot
  show ?thesis by (simp add: mypkg_path_facts)
qed

text \<open>
  Claim C8 as stated fails for a package path whose last segment has a suffix: for
  \<^verbatim>\<open>/pkg/mypkg.v2\<close> the imports are resolved against \<^verbatim>\<open>mypkg\<close> and the returned names
  start with \<^verbatim>\<open>mypkg\<close>, not with the last segment \<^verbatim>\<open>mypkg.v2\<close>.
\<close>

theorem package_name_not_last_segment:
  "fst (list_modules mypkg_imp mypkg_fs None (Path True [''pkg'', ''mypkg.v2'']) start_state) =
     Inr [(\<lparr>mod_name = ''mypkg.native.core'',
              mod_file = Some ''/pkg/mypkg/native/core.cpython-311.so''\<rparr>,
            ''mypkg.native.core'', ''/pkg/mypkg/native''),
           (\<lparr>mod_name = ''mypkg.native.sub.ext'',
              mod_file = Some ''/pkg/mypkg/native/sub/ext.cpython-311.so''\<rparr>,
            ''mypkg.native.sub.ext'', ''/pkg/mypkg/native/sub'')]
   \<and> path_name (absolute (cwd start_state) (Path True [''pkg'', ''mypkg.v2''])) = ''mypkg.v2''
   \<and> path_stem (absolute (cwd start_state) (Path True [''pkg'', ''mypkg.v2''])) = ''mypkg''"
proof -
  have facts: "str_path (parent (absolute (cwd start_state) (Path True [''pkg'', ''mypkg.v2'']))) = ''/pkg''"
    "path_stem (absolute (cwd start_state) (Path True [''pkg'', ''mypkg.v2''])) = ''mypkg''"
    "path_name (absolute (cwd start_state) (Path True [''pkg'', ''mypkg.v2''])) = ''mypkg.v2''"
    by (simp_all add: absolute_def parent_def str_path_def path_stem_def path_name_def rfind_dot_def)
  show ?thesis
    by (simp add: mypkg_run [OF facts(1,2)] facts)
qed

text \<open>
  Claim C7, as the code has it. The module path is taken relative to the package (line
  9), so an explicit module path \<open>p\<close> resolves the subpackage \<^verbatim>\<open><package>.<p>\<close>. When a
  run without module path and a run with \<open>p\<close> walk the same directory contents, for a
  package of the same on-disk name, the run with \<open>p\<close> returns the names of the other
  run with the dotted \<open>p\<close> inserted after the package name: for \<open>p\<close> the top-level
  package name \<^verbatim>\<open>mypkg\<close>, the name \<^verbatim>\<open>mypkg.mypkg.native.core\<close> for
  \<^verbatim>\<open>mypkg.native.core\<close>.
\<close>

theorem explicit_module_path_shifts_names:
  assumes "fst (list_modules imp fs None pp st) = Inr res"
    and "fst (list_modules imp' fs' (Some p) pp' st') = Inr res'"
    and "path_stem (absolute (cwd st) pp) = stem"
    and "path_stem (absolute (cwd st') pp') = stem"
    and "import_module imp (sys_path st @ [str_path (parent (absolute (cwd st) pp))])
           (package_name_of None) (Some stem) = Inr pkg"
    and "mod_file pkg = Some f"
    and "import_module imp' (sys_path st' @ [str_path (parent (absolute (cwd st') pp'))])
           (package_name_of (Some p)) (Some stem) = Inr pkg'"
    and "mod_file pkg' = Some f'"
    and "fs (dirname f) = fs' (dirname f')"
    and "package_name_of (Some p) \<noteq> ''.''"
  shows "map (fst \<circ> snd) res' =
     map (\<lambda>name. stem @ package_name_of (Some p) @ drop (length stem) name) (map (fst \<circ> snd) res)"
proof -
  let ?sp = "sys_path st @ [str_path (parent (absolute (cwd st) pp))]"
  let ?sp' = "sys_path st' @ [str_path (parent (absolute (cwd st') pp'))]"
  have run: "for_each (resolve_artifact imp ?sp stem (package_name_of None))
      (artifacts fs (dirname f)) [] = Inr res"
    using list_modules_result [of imp st pp None pkg f fs] assms(1,3,5,6) by simp
  have run': "for_each (resolve_artifact imp' ?sp' stem (package_name_of (Some p)))
      (artifacts fs' (dirname f')) [] = Inr res'"
    using list_modules_result [of imp' st' pp' "Some p" pkg' f' fs'] assms(2,4,7,8) by simp
  have same: "map snd (artifacts fs' (dirname f')) = map snd (artifacts fs (dirname f))"
    by (rule artifacts_same_contents) (simp add: assms(9))
  have self: "package_name_of None = ''.''"
    by (simp add: package_name_of_def)
  from resolve_all_names [OF run] resolve_all_names [OF run'] same
  show ?thesis
    by (simp add: self comp_def module_name_of_shift [OF assms(10)])
qed

theorem explicit_module_path_shifts_names_witness:
  "map (fst \<circ> snd)
     [(\<lparr>mod_name = ''mypkg.mypkg.native.core'',
         mod_file = Some ''/pkg/mypkg/mypkg/native/core.cpython-311.so''\<rparr>,
       ''mypkg.mypkg.native.core'', ''/pkg/mypkg/mypkg/native''),
      (\<lparr>mod_name = ''mypkg.mypkg.native.sub.ext'',
         mod_file = Some ''/pkg/mypkg/mypkg/native/sub/ext.cpython-311.so''\<rparr>,
       ''mypkg.mypkg.native.sub.ext'', ''/pkg/mypkg/mypkg/native/sub'')]
   = map (\<lambda>name. ''mypkg'' @ package_name_of (Some (Path False [''mypkg''])) @ drop (length ''mypkg'') name)
       (map (fst \<circ> snd)
         [(\<lparr>mod_name = ''mypkg.native.core'',
             mod_file = Some ''/pkg/mypkg/native/core.cpython-311.so''\<rparr>,
           ''mypkg.native.core'', ''/pkg/mypkg/native''),
          (\<lparr>mod_name = ''mypkg.native.sub.ext'',
             mod_file = Some ''/pkg/mypkg/native/sub/ext.cpython-311.so''\<rparr>,
           ''mypkg.native.sub.ext'', ''/pkg/mypkg/native/sub'')])"
proof (rule explicit_module_path_shifts_names [where imp = mypkg_imp and fs = mypkg_fs and pp = mypkg_path and st = start_state
      and imp' = wrapped_imp and fs' = wrapped_fs and pp' = mypkg_path and st' = start_state
      and f = "''/pkg/mypkg/__init__.py''" and f' = "''/pkg/mypkg/mypkg/__init__.py''"
      and pkg = "\<lparr>mod_name = ''mypkg'', mod_file = Some ''/pkg/mypkg/__init__.py''\<rparr>"
      and pkg' = "\<lparr>mod_name = ''mypkg.mypkg'', mod_file = Some ''/pkg/mypkg/mypkg/__init__.py''\<rparr>"])
  show "fst (list_modules mypkg_imp mypkg_fs None mypkg_path start_state) =
      Inr [(\<lparr>mod_name = ''mypkg.native.core'',
             mod_file = Some ''/pkg/mypkg/native/core.cpython-311.so''\<rparr>,
           ''mypkg.native.core'', ''/pkg/mypkg/native''),
          (\<lparr>mod_name = ''mypkg.native.sub.ext'',
             mod_file = Some ''/pkg/mypkg/native/sub/ext.cpython-311.so''\<rparr>,
           ''mypkg.native.sub.ext'', ''/pkg/mypkg/native/sub'')]"
    by (simp add: mypkg_run mypkg_path_facts)
  show "fst (list_modules wrapped_imp wrapped_fs (Some (Path False [''mypkg''])) mypkg_path start_state) =
     Inr [(\<lparr>mod_name = ''mypkg.mypkg.native.core'',
              mod_file = Some ''/pkg/mypkg/mypkg/native/core.cpython-311.so''\<rparr>,
            ''mypkg.mypkg.native.core'', ''/pkg/mypkg/mypkg/native''),
           (\<lparr>mod_name = ''mypkg.mypkg.native.sub.ext'',
              mod_file = Some ''/pkg/mypkg/mypkg/native/sub/ext.cpython-311.so''\<rparr>,
            ''mypkg.mypkg.native.sub.ext'', ''/pkg/mypkg/mypkg/native/sub'')]"
    by (simp add: wrapped_run)
  show "path_stem (absolute (cwd start_state) mypkg_path) = ''mypkg''"
    by (rule mypkg_path_facts)
  show "path_stem (absolute (cwd start_state) mypkg_path) = ''mypkg''"
    by (rule mypkg_path_facts)
  show "import_module mypkg_imp
      (sys_path start_state @ [str_path (parent (absolute (cwd start_state) mypkg_path))])
      (package_name_of None) (Some ''mypkg'')
      = Inr \<lparr>mod_name = ''mypkg'', mod_file = Some ''/pkg/mypkg/__init__.py''\<rparr>"
    by (simp add: mypkg_imp_def import_defs package_name_of_def)
  show "import_module wrapped_imp
      (sys_path start_state @ [str_path (parent (absolute (cwd start_state) mypkg_path))])
      (package_name_of (Some (Path False [''mypkg'']))) (Some ''mypkg'')
      = Inr \<lparr>mod_name = ''mypkg.mypkg'', mod_file = Some ''/pkg/mypkg/mypkg/__init__.py''\<rparr>"
    by (simp add: wrapped_imp_def import_defs package_name_of_def str_path_def)
  show "mypkg_fs (dirname ''/pkg/mypkg/__init__.py'') = wrapped_fs (dirname ''/pkg/mypkg/mypkg/__init__.py'')"
    by (simp add: mypkg_fs_def wrapped_fs_def fs_from_def dirname_def Let_def)
  show "package_name_of (Some (Path False [''mypkg''])) \<noteq> ''.''"
    by (simp add: package_name_of_def str_path_def)
qed simp_all

text \<open>
  Claim C7 as stated fails. In a package \<^verbatim>\<open>mypkg\<close> with the artifacts
  \<^verbatim>\<open>native/core.so\<close> and \<^verbatim>\<open>mypkg/inner.so\<close>, resolution without module path returns
  \<^verbatim>\<open>mypkg.native.core\<close> and \<^verbatim>\<open>mypkg.mypkg.inner\<close>; with the module path \<^verbatim>\<open>mypkg\<close> it
  walks the subpackage \<^verbatim>\<open>mypkg.mypkg\<close> and returns \<^verbatim>\<open>mypkg.mypkg.inner\<close> alone.
\<close>

theorem explicit_top_level_name_differs:
  "fst (list_modules nested_imp nested_fs None mypkg_path start_state) =
     Inr [(\<lparr>mod_name = ''mypkg.native.core'', mod_file = Some ''/pkg/mypkg/native/core.so''\<rparr>,
           ''mypkg.native.core'', ''/pkg/mypkg/native''),
          (\<lparr>mod_name = ''mypkg.mypkg.inner'', mod_file = Some ''/pkg/mypkg/mypkg/inner.so''\<rparr>,
           ''mypkg.mypkg.inner'', ''/pkg/mypkg/mypkg'')]
   \<and> fst (list_modules nested_imp nested_fs (Some (Path False [''mypkg''])) mypkg_path start_state) =
     Inr [(\<lparr>mod_name = ''mypkg.mypkg.inner'', mod_file = Some ''/pkg/mypkg/mypkg/inner.so''\<rparr>,
           ''mypkg.mypkg.inner'', ''/pkg/mypkg/mypkg'')]"
  by (simp add: nested_run_self nested_run_explicit)

section \<open>The output directory of each emission\<close>

lemma stub_all_output_dir:
  assumes "stub_all svc dir ms log = (r, log')"
    and "\<forall>a \<in> set log. output_dir a = dir"
  shows "\<forall>a \<in> set log'. output_dir a = dir"
  using assms
proof (induction ms arbitrary: log)
  case Nil
  then show ?case by simp
next
  case (Cons x ms)
  obtain m name mdir where x: "x = (m, name, mdir)" by (cases x) auto
  have inv: "\<forall>a \<in> set (log @ [stub_args name dir]). output_dir a = dir"
    using Cons.prems(2) by (simp add: stub_args_def)
  show ?case
  proof (cases "svc (stub_args name dir)")
    case None
    with Cons.prems(1) have "stub_all svc dir ms (log @ [stub_args name dir]) = (r, log')"
      by (simp add: x stub_def Let_def)
    from Cons.IH [OF this inv] show ?thesis .
  next
    case (Some e)
    with Cons.prems(1) have "log' = log @ [stub_args name dir]"
      by (simp add: x stub_def Let_def)
    with inv show ?thesis by simp
  qed
qed

lemma get_module_Inr:
  assumes "get_module imp p root st = (Inr (m, name, mpath), st')"
  shows "mpath = absolute (cwd st) root \<and> cwd st' = cwd st"
  using assms
  by (auto simp: get_module_def Let_def split: list.splits sum.splits if_splits)

lemma main_output_dir_bindings:
  assumes "main imp fs svc exec_py args st = (r, log, st')"
    and "script_setup exec_py args st = (None, g)"
    and "a \<in> set log"
  shows "output_dir a =
     (if g_single g then str_path (absolute (cwd (g_state g)) (g_root g))
      else str_path (parent (g_root g)))"
proof (cases "g_single g")
  case False
  obtain res st3 where lm: "list_modules imp fs (g_p g) (g_root g) (g_state g) = (res, st3)"
    by (cases "list_modules imp fs (g_p g) (g_root g) (g_state g)") auto
  with assms False obtain ms where
    "stub_all svc (str_path (parent (g_root g))) ms [] = (r, log)"
    by (auto simp: main_def split: sum.splits prod.splits)
  from stub_all_output_dir [OF this] assms(3) False show ?thesis by simp
next
  case True
  obtain res st3 where gm: "get_module imp (g_p g) (g_root g) (g_state g) = (res, st3)"
    by (cases "get_module imp (g_p g) (g_root g) (g_state g)") auto
  with assms True obtain m name mpath where
    res: "res = Inr (m, name, mpath)"
    and "stub svc name (str_path mpath) [] = (r, log)"
    by (auto simp: main_def split: sum.splits prod.splits)
  moreover from get_module_Inr gm res have "mpath = absolute (cwd (g_state g)) (g_root g)"
    by blast
  ultimately show ?thesis
    using assms(3) True by (auto simp: stub_def Let_def stub_args_def)
qed

text \<open>
  Code given with \<^verbatim>\<open>--eval\<close> can change the binding that lines 113 and 116 read: after
  \<^verbatim>\<open>root = root.absolute()\<close> the batch run with \<^verbatim>\<open>--root mypkg\<close> from \<^verbatim>\<open>/pkg\<close> hands
  the service \<^verbatim>\<open>/pkg\<close>, the parent of the new binding, where the path as given has the
  parent \<^verbatim>\<open>.\<close>.
\<close>

lemma eval_rebinds_root:
  "main mypkg_imp mypkg_fs quiet_service rebind_root_absolute eval_arguments pkg_state =
     (None,
      [stub_args ''mypkg.native.core'' ''/pkg'', stub_args ''mypkg.native.sub.ext'' ''/pkg''],
      \<lparr>sys_path = [''/pkg/mypkg'', ''/usr/lib/python3'', ''/pkg''], cwd = [''pkg'']\<rparr>)"
  by (simp add: main_def script_setup_def eval_arguments_def rebind_root_absolute_def pkg_state_def
      quiet_service_def mypkg_run stub_def Let_def absolute_def parent_def str_path_def
      path_stem_def path_name_def rfind_dot_def)

text \<open>
  Claim C10. In a run of the script without \<^verbatim>\<open>--eval\<close>, where no code rebinds
  \<^verbatim>\<open>root\<close> or \<^verbatim>\<open>single\<close>, every request handed to the service has as output
  directory, in batch mode, the parent of the \<^verbatim>\<open>--root\<close> path as it was given (the
  directory of the resolved module plays no part), and in single mode the absolute
  \<^verbatim>\<open>--root\<close> path.
\<close>

theorem main_output_dir:
  assumes "main imp fs svc exec_py args st = (r, log, st')"
    and "arg_root args = Some root"
    and "arg_eval args = None"
    and "a \<in> set log"
  shows "output_dir a =
     (if arg_single args then str_path (absolute (cwd st) root) else str_path (parent root))"
proof -
  have "script_setup exec_py args st =
      (None, \<lparr>g_p = arg_p args, g_root = root, g_single = arg_single args,
               g_state = st\<lparr>sys_path := str_path (absolute (cwd st) root) # sys_path st\<rparr>\<rparr>)"
    using assms(2,3) by (simp add: script_setup_def)
  from main_output_dir_bindings [OF assms(1) this assms(4)] show ?thesis by simp
qed

theorem main_output_dir_witness:
  "main mypkg_imp mypkg_fs quiet_service (\<lambda>code g. (None, g)) batch_arguments pkg_state =
     (None,
      [stub_args ''mypkg.native.core'' ''.'', stub_args ''mypkg.native.sub.ext'' ''.''],
      \<lparr>sys_path = [''/pkg/mypkg'', ''/usr/lib/python3'', ''/pkg''], cwd = [''pkg'']\<rparr>)
   \<and> output_dir (stub_args ''mypkg.native.core'' ''.'') = str_path (parent (Path False [''mypkg'']))
   \<and> main mypkg_imp mypkg_fs quiet_service (\<lambda>code g. (None, g)) single_arguments pkg_state =
     (None,
      [stub_args ''mypkg.native.core'' ''/pkg''],
      \<lparr>sys_path = [''/pkg'', ''/usr/lib/python3''], cwd = [''pkg'']\<rparr>)
   \<and> output_dir (stub_args ''mypkg.native.core'' ''/pkg'') = str_path (absolute [''pkg''] (Path False []))"
proof -
  have batch: "main mypkg_imp mypkg_fs quiet_service (\<lambda>code g. (None, g)) batch_arguments pkg_state =
     (None,
      [stub_args ''mypkg.native.core'' ''.'', stub_args ''mypkg.native.sub.ext'' ''.''],
      \<lparr>sys_path = [''/pkg/mypkg'', ''/usr/lib/python3'', ''/pkg''], cwd = [''pkg'']\<rparr>)"
    by (simp add: main_def script_setup_def batch_arguments_def pkg_state_def quiet_service_def
        mypkg_run stub_def Let_def absolute_def parent_def str_path_def path_stem_def
        path_name_def rfind_dot_def)
  have single: "main mypkg_imp mypkg_fs quiet_service (\<lambda>code g. (None, g)) single_arguments pkg_state =
     (None,
      [stub_args ''mypkg.native.core'' ''/pkg''],
      \<lparr>sys_path = [''/pkg'', ''/usr/lib/python3''], cwd = [''pkg'']\<rparr>)"
    by (simp add: main_def script_setup_def single_arguments_def pkg_state_def quiet_service_def
        get_module_def str_opt_path_def mypkg_imp_def import_defs
        stub_def Let_def absolute_def parent_def str_path_def)
  have be: "arg_eval batch_arguments = None" and se: "arg_eval single_arguments = None"
    by (simp_all add: batch_arguments_def single_arguments_def)
  have batch_dir: "output_dir (stub_args ''mypkg.native.core'' ''.'')
      = str_path (parent (Path False [''mypkg'']))"
    using main_output_dir [OF batch _ be, of "Path False [''mypkg'']"
        "stub_args ''mypkg.native.core'' ''.''"]
    by (simp add: batch_arguments_def)
  have single_dir: "output_dir (stub_args ''mypkg.native.core'' ''/pkg'')
      = str_path (absolute [''pkg''] (Path False []))"
    using main_output_dir [OF single _ se, of "Path False []"
        "stub_args ''mypkg.native.core'' ''/pkg''"]
    by (simp add: single_arguments_def pkg_state_def)
  show ?thesis
    by (intro conjI batch batch_dir single single_dir)
qed

end
